theory Spec2Isabelle
  imports Main
begin

section \<open>Rich-text values and the store they live in\<close>

text \<open>
  The block editor's RichText wrapper
  (packages/block-editor/src/components/rich-text/index.js) decides, for a key press, a
  paste or a typed prefix, which callbacks of its owner it invokes.  The callbacks are
  props that may be absent; a call of one is recorded as a signal, in the order the
  source makes the calls.
\<close>

type_synonym format = string

text \<open>
  A rich-text value: its text, one entry of formats per character (a JavaScript array
  that may have holes, so an entry is optional) and the selection.
\<close>

record rvalue =
  v_text :: string
  v_formats :: "format list option list"
  v_start :: nat
  v_end :: nat

text \<open>
  Values are JavaScript objects and \<open>addActiveFormats\<close> writes into the one it is given,
  so the values that a handler can reach sit in a store and are named by references.
\<close>

type_synonym ref = nat
type_synonym store = "rvalue list"

definition alloc :: "rvalue \<Rightarrow> store \<Rightarrow> ref \<times> store" where
  "alloc v s = (length s, s @ [v])"

text \<open>Modelled from the spec: \<open>isEmpty\<close> of @wordpress/rich-text, true iff the text has
  length 0 (section 4.1).\<close>
definition isEmpty :: "rvalue \<Rightarrow> bool" where
  "isEmpty v = (length (v_text v) = 0)"

text \<open>Modelled from the spec: \<open>isCollapsed\<close> of @wordpress/rich-text, true iff start and
  end of the selection coincide (section 4.1).\<close>
definition isCollapsed :: "rvalue \<Rightarrow> bool" where
  "isCollapsed v = (v_start v = v_end v)"

subsection \<open>addActiveFormats\<close>

text \<open>\<open>value.formats[ index ] || []\<close>: a hole reads as the empty stack.\<close>
definition orEmpty :: "format list option \<Rightarrow> format list" where
  "orEmpty e = (case e of None \<Rightarrow> [] | Some fs \<Rightarrow> fs)"

text \<open>
  The loop \<open>while ( index-- )\<close>: it runs with index - 1 down to 0 and overwrites the
  entry at that index of the formats of the value behind the reference.
\<close>
fun addActiveFormats_loop :: "format list \<Rightarrow> ref \<Rightarrow> nat \<Rightarrow> store \<Rightarrow> store" where
  "addActiveFormats_loop activeFormats r 0 s = s"
| "addActiveFormats_loop activeFormats r (Suc index) s =
     addActiveFormats_loop activeFormats r index
       (s[r := (s ! r)\<lparr>v_formats :=
          (v_formats (s ! r))[index := Some (activeFormats @ orEmpty (v_formats (s ! r) ! index))]\<rparr>])"

definition addActiveFormats :: "ref \<Rightarrow> format list \<Rightarrow> store \<Rightarrow> store" where
  "addActiveFormats r activeFormats s =
     (if length activeFormats \<noteq> 0
      then addActiveFormats_loop activeFormats r (length (v_formats (s ! r))) s
      else s)"

section \<open>Props, external services and signals\<close>

text \<open>The \<open>multiline\<close> prop: absent, a boolean or a string.\<close>
datatype multiline_prop = MUndefined | MBool bool | MString string

definition truthy :: "multiline_prop \<Rightarrow> bool" where
  "truthy m = (case m of MUndefined \<Rightarrow> False | MBool b \<Rightarrow> b | MString str \<Rightarrow> str \<noteq> [])"

definition getMultilineTag :: "multiline_prop \<Rightarrow> string option" where
  "getMultilineTag m =
     (if m \<noteq> MBool True \<and> m \<noteq> MString ''p'' \<and> m \<noteq> MString ''li'' then None
      else if m = MBool True then Some ''p''
      else (case m of MString str \<Rightarrow> Some str | _ \<Rightarrow> None))"

text \<open>
  The props of the wrapper that the handlers read.  A callback whose call is recorded as
  a signal is a flag saying whether the prop is there; \<open>onSplit\<close> and \<open>onSplitMiddle\<close>
  return a block, so they are functions.
\<close>
record 'b props =
  onReplace :: bool
  onSplit :: "(string \<Rightarrow> bool \<Rightarrow> 'b) option"
  onSplitMiddle :: "(unit \<Rightarrow> 'b) option"
  onSplitAtEnd :: bool
  onMerge :: bool
  onRemove :: bool
  multiline :: multiline_prop
  disableLineBreaks :: bool
  pastePlainText :: bool
  embedURLOnPaste :: bool
  tagName :: string
  preserveWhiteSpace :: bool

datatype mode = AUTO | INLINE | BLOCKS

text \<open>What \<open>pasteHandler\<close> returns: a string of inline HTML or a list of blocks.\<close>
datatype 'b content = Inline string | Blocks "'b list"

text \<open>The argument of \<open>create\<close>: html with the multiline options, or plain text.\<close>
datatype create_args =
  FromHTML string "string option" "string list option" bool
| FromText string

text \<open>What \<open>insert\<close> puts into a value: a string or a value.\<close>
datatype fragment = Text string | Value rvalue

text \<open>The argument of a transform's \<open>transform\<close>: the object \<open>{ content }\<close> that the
  enter transforms get, or the content itself that the prefix transforms get.\<close>
datatype transform_arg = ContentField string | Content string

record 'b transform =
  ttype :: string
  regExp :: "string \<Rightarrow> bool"
  prefix :: string
  transform :: "transform_arg \<Rightarrow> 'b"

text \<open>
  The functions that the file imports from @wordpress/rich-text, @wordpress/blocks,
  @wordpress/url and @wordpress/shortcode, and the \<open>removeEditorOnlyFormats\<close> that the
  inner component hands over.  The handlers only call them, and they return without
  changing their arguments (sections 4.1 and 6 of the spec), so they are parameters:
  \<open>split_v\<close>, \<open>insert_v\<close>, \<open>slice_v\<close> stand for \<open>split\<close>, \<open>insert\<close>, \<open>slice\<close>;
  \<open>replaceNewlines\<close> for \<open>replace( v, /\n+/g, LINE_SEPARATOR )\<close>; \<open>isShortcode\<close> for
  \<open>regexp( '.*' ).test\<close>; \<open>pasteHandlerBlocks\<close> for \<open>pasteHandler\<close> called with mode
  'BLOCKS' and no plain text, where it returns a list of blocks;
  \<open>getBlockTransforms_from\<close> for the registry \<open>getBlockTransforms( 'from' )\<close>.
\<close>
record 'b lib =
  split_v :: "rvalue \<Rightarrow> rvalue \<times> rvalue"
  insert_v :: "rvalue \<Rightarrow> fragment \<Rightarrow> rvalue"
  insertLineSeparator :: "rvalue \<Rightarrow> rvalue"
  isEmptyLine :: "rvalue \<Rightarrow> bool"
  create :: "create_args \<Rightarrow> rvalue"
  replaceNewlines :: "rvalue \<Rightarrow> rvalue"
  slice_v :: "rvalue \<Rightarrow> nat \<Rightarrow> nat \<Rightarrow> rvalue"
  toHTMLString :: "rvalue \<Rightarrow> string option \<Rightarrow> string"
  pasteHandler :: "string \<Rightarrow> string \<Rightarrow> mode \<Rightarrow> string \<Rightarrow> bool \<Rightarrow> 'b content"
  pasteHandlerBlocks :: "string \<Rightarrow> string \<Rightarrow> bool \<Rightarrow> 'b list"
  filePasteHandler :: "string list \<Rightarrow> string"
  isURL :: "string \<Rightarrow> bool"
  isShortcode :: "string \<Rightarrow> bool"
  removeEditorOnlyFormats :: "rvalue \<Rightarrow> rvalue"
  getBlockTransforms_from :: "'b transform list"

text \<open>Modelled from the spec: \<open>findTransform\<close> of @wordpress/blocks, the first registered
  transform that satisfies the predicate, or none (sections 4.4, 4.5 and 6).\<close>
definition findTransform :: "'b transform list \<Rightarrow> ('b transform \<Rightarrow> bool) \<Rightarrow> 'b transform option" where
  "findTransform transforms predicate = find predicate transforms"

text \<open>
  The calls a handler makes on its owner.  \<open>OnReplace\<close> carries the blocks and, when the
  call passes them, the index to select and the initial position.  \<open>OnMerge\<close> and
  \<open>OnRemove\<close> carry the argument of the call, \<open>! isReverse\<close>: true is forward, false
  is backward.  \<open>ConsoleLog\<close> is the \<open>window.console.log\<close> of the file branch of a paste.
\<close>
datatype 'b signal =
  OnChange rvalue
| OnReplace "'b list" "(int \<times> int) option"
| MarkAutomaticChange
| OnSplitAtEnd
| OnMerge bool
| OnRemove bool
| ConsoleLog "string list"

section \<open>splitValue\<close>

text \<open>
  \<open>splitValue( record, pastedBlocks = [] )\<close>: nothing happens without \<open>onReplace\<close> or
  without \<open>onSplit\<close>; otherwise the blocks are pushed in the order before, pasted or
  middle, after, and \<open>onReplace\<close> is called once.  \<open>lastPastedBlockIndex\<close> starts at
  -1 and follows the pushes.
\<close>
definition splitValue :: "'b props \<Rightarrow> 'b lib \<Rightarrow> rvalue \<Rightarrow> 'b list \<Rightarrow> 'b signal list" where
  "splitValue P L record pastedBlocks =
     (case onSplit P of
        None \<Rightarrow> []
      | Some onSplit_f \<Rightarrow>
          if \<not> onReplace P then []
          else
            (let (before, after) = split_v L record;
                 multilineTag = getMultilineTag (multiline P);
                 hasPastedBlocks = (length pastedBlocks > 0);
                 isAfterOriginal = (isEmpty before \<and> \<not> isEmpty after);
                 (blocks1, index1) =
                   (if \<not> hasPastedBlocks \<or> \<not> isEmpty before
                    then ([onSplit_f (toHTMLString L before multilineTag) (\<not> isAfterOriginal)],
                          (-1::int) + 1)
                    else ([], -1));
                 (blocks2, lastPastedBlockIndex) =
                   (if hasPastedBlocks
                    then (blocks1 @ pastedBlocks, index1 + int (length pastedBlocks))
                    else (case onSplitMiddle P of
                            Some onSplitMiddle_f \<Rightarrow> (blocks1 @ [onSplitMiddle_f ()], index1)
                          | None \<Rightarrow> (blocks1, index1)));
                 blocks =
                   (if (if hasPastedBlocks then \<not> isEmpty after
                        else onSplitMiddle P = None \<or> \<not> isEmpty after)
                    then blocks2 @ [onSplit_f (toHTMLString L after multilineTag) isAfterOriginal]
                    else blocks2);
                 indexToSelect = (if hasPastedBlocks then lastPastedBlockIndex else 1);
                 initialPosition = (if hasPastedBlocks then -1 else (0::int))
             in [OnReplace blocks (Some (indexToSelect, initialPosition))]))"

section \<open>The key handler\<close>

record event =
  keyCode :: nat
  shiftKey :: bool
  defaultPrevented :: bool

text \<open>The constants of @wordpress/keycodes, which are the key codes of the DOM.\<close>
definition BACKSPACE :: nat where "BACKSPACE = 8"
definition ENTER :: nat where "ENTER = 13"
definition DELETE :: nat where "DELETE = 46"

text \<open>\<open>event.preventDefault()\<close> marks the event; the handler returns the event with the
  signals.\<close>
definition preventDefault :: "event \<Rightarrow> event" where
  "preventDefault ev = ev\<lparr>defaultPrevented := True\<rparr>"

text \<open>The check of the enter transforms, made when \<open>onReplace\<close> is there.\<close>
definition enterTransform :: "'b props \<Rightarrow> 'b lib \<Rightarrow> rvalue \<Rightarrow> 'b signal list" where
  "enterTransform P L value' =
     (if onReplace P then
        (let transforms = filter (\<lambda>t. ttype t = ''enter'') (getBlockTransforms_from L)
         in case findTransform transforms (\<lambda>item. regExp item (v_text value')) of
              Some transformation \<Rightarrow>
                [OnReplace [transform transformation (ContentField (v_text value'))] None,
                 MarkAutomaticChange]
            | None \<Rightarrow> [])
      else [])"

text \<open>
  \<open>_onKeyDown( event )\<close> of the inner component; \<open>value'\<close> is the source's \<open>_value\<close>.
  An event that is already prevented is left alone.
\<close>
definition onKeyDown :: "'b props \<Rightarrow> 'b lib \<Rightarrow> bool \<Rightarrow> rvalue \<Rightarrow> event \<Rightarrow> 'b signal list \<times> event" where
  "onKeyDown P L hasActiveFormats value ev =
     (if defaultPrevented ev then ([], ev)
      else if keyCode ev = ENTER then
        (let value' = removeEditorOnlyFormats L value;
             canSplit = (onReplace P \<and> onSplit P \<noteq> None)
         in (enterTransform P L value' @
             (if truthy (multiline P) then
                (if shiftKey ev then
                   (if \<not> disableLineBreaks P then [OnChange (insert_v L value' (Text [CHR 0x0A]))]
                    else [])
                 else if canSplit \<and> isEmptyLine L value' then splitValue P L value' []
                 else [OnChange (insertLineSeparator L value')])
              else
                (let canSplitAtEnd =
                       (onSplitAtEnd P \<and> v_start value' = v_end value'
                        \<and> v_end value' = length (v_text value'))
                 in if shiftKey ev \<or> (\<not> canSplit \<and> \<not> canSplitAtEnd) then
                      (if \<not> disableLineBreaks P then [OnChange (insert_v L value' (Text [CHR 0x0A]))]
                       else [])
                    else if \<not> canSplit \<and> canSplitAtEnd then [OnSplitAtEnd]
                    else if canSplit then splitValue P L value' []
                    else [])),
             preventDefault ev))
      else if keyCode ev = DELETE \<or> keyCode ev = BACKSPACE then
        (let isReverse = (keyCode ev = BACKSPACE)
         in if \<not> isCollapsed value \<or> hasActiveFormats
               \<or> (isReverse \<and> v_start value \<noteq> 0)
               \<or> (\<not> isReverse \<and> v_end value \<noteq> length (v_text value))
            then ([], ev)
            else ((if onMerge P then [OnMerge (\<not> isReverse)] else []) @
                  (if onRemove P \<and> isEmpty value \<and> isReverse then [OnRemove (\<not> isReverse)] else []),
                  preventDefault ev))
      else ([], ev))"

section \<open>The paste handler\<close>

record payload =
  html :: string
  plainText :: string
  isInternal :: bool
  files :: "string list"
  activeFormats :: "format list"

text \<open>
  \<open>String.prototype.trim\<close> on the characters a \<open>string\<close> has: the white space and line
  terminators of JavaScript up to code 255.
\<close>
definition isWhiteSpace :: "char \<Rightarrow> bool" where
  "isWhiteSpace c = (c \<in> set [CHR 0x09, CHR 0x0A, CHR 0x0B, CHR 0x0C, CHR 0x0D, CHR 0x20, CHR 0xA0])"

definition trim :: "string \<Rightarrow> string" where
  "trim str = rev (dropWhile isWhiteSpace (rev (dropWhile isWhiteSpace str)))"

text \<open>
  The parse mode of a general paste: \<open>let mode = ...\<close> and the two statements that may
  set it to 'BLOCKS'.
\<close>
definition pasteMode :: "'b props \<Rightarrow> 'b lib \<Rightarrow> rvalue \<Rightarrow> payload \<Rightarrow> mode" where
  "pasteMode P L value pl =
     (let mode0 = (if onReplace P \<and> onSplit P \<noteq> None then AUTO else INLINE);
          mode1 = (if mode0 = AUTO \<and> isEmpty value \<and> isShortcode L (plainText pl)
                   then BLOCKS else mode0)
      in if embedURLOnPaste P \<and> isEmpty value \<and> isURL L (trim (plainText pl))
         then BLOCKS else mode1)"

text \<open>
  \<open>onPaste\<close>: the current value is behind the reference \<open>value\<close>.  \<open>create\<close> makes a new
  object, which \<open>addActiveFormats\<close> then writes into; the store comes back with the
  signals.
\<close>
definition onPaste :: "'b props \<Rightarrow> 'b lib \<Rightarrow> ref \<Rightarrow> payload \<Rightarrow> store \<Rightarrow> 'b signal list \<times> store" where
  "onPaste P L value pl s =
     (let multilineTag = getMultilineTag (multiline P) in
      if isInternal pl then
        (let (pastedValue, s1) =
               alloc (create L (FromHTML (html pl) multilineTag
                        (if multilineTag = Some ''li'' then Some [''ul'', ''ol''] else None)
                        (preserveWhiteSpace P))) s;
             s2 = addActiveFormats pastedValue (activeFormats pl) s1
         in ([OnChange (insert_v L (s2 ! value) (Value (s2 ! pastedValue)))], s2))
      else if pastePlainText P then
        ([OnChange (insert_v L (s ! value) (Value (create L (FromText (plainText pl)))))], s)
      else if length (files pl) \<noteq> 0 \<and> html pl = [] then
        (let content = pasteHandlerBlocks L (filePasteHandler L (files pl)) (tagName P)
                         (preserveWhiteSpace P)
         in (ConsoleLog (files pl) #
               (if onReplace P \<and> isEmpty (s ! value) then [OnReplace content None]
                else splitValue P L (s ! value) content),
             s))
      else
        (case pasteHandler L (html pl) (plainText pl) (pasteMode P L (s ! value) pl)
                (tagName P) (preserveWhiteSpace P) of
           Inline str \<Rightarrow>
             (let (valueToInsert, s1) = alloc (create L (FromHTML str None None False)) s;
                  s2 = addActiveFormats valueToInsert (activeFormats pl) s1;
                  valueToInsert' =
                    (if multilineTag \<noteq> None then replaceNewlines L (s2 ! valueToInsert)
                     else s2 ! valueToInsert)
              in ([OnChange (insert_v L (s2 ! value) (Value valueToInsert'))], s2))
         | Blocks content \<Rightarrow>
             if length content > 0 then
               (if onReplace P \<and> isEmpty (s ! value)
                then [OnReplace content (Some (int (length content) - 1, -1))]
                else splitValue P L (s ! value) content,
                s)
             else ([], s)))"

section \<open>The input rule\<close>

text \<open>\<open>String.prototype.slice\<close>: a negative index counts from the end, and both indices
  are clamped to the string.\<close>
definition text_slice :: "string \<Rightarrow> int \<Rightarrow> int \<Rightarrow> string" where
  "text_slice str b e =
     (let len = int (length str);
          from = (if b < 0 then max (len + b) 0 else min b len);
          to = (if e < 0 then max (len + e) 0 else min e len)
      in take (nat (to - from)) (drop (nat from) str))"

definition inputRule :: "'b props \<Rightarrow> 'b lib \<Rightarrow> rvalue \<Rightarrow> (rvalue \<Rightarrow> string) \<Rightarrow> 'b signal list" where
  "inputRule P L value valueToFormat =
     (if \<not> onReplace P then []
      else
        (let start = v_start value;
             text = v_text value;
             characterBefore = text_slice text (int start - 1) (int start)
         in if characterBefore \<noteq> '' '' then []
            else
              (let trimmedTextBefore = trim (text_slice text 0 (int start));
                   prefixTransforms = filter (\<lambda>t. ttype t = ''prefix'') (getBlockTransforms_from L)
               in case findTransform prefixTransforms (\<lambda>t. trimmedTextBefore = prefix t) of
                    None \<Rightarrow> []
                  | Some transformation \<Rightarrow>
                      (let content = valueToFormat (slice_v L value start (length text));
                           block = transform transformation (Content content)
                       in [OnReplace [block] None, MarkAutomaticChange]))))"

section \<open>A concrete host\<close>

text \<open>
  One instance of the external services, on blocks that are strings, for running the
  handlers on concrete inputs; it is not part of the source.  \<open>split\<close> cuts at the
  selection and drops the selected range, \<open>insert\<close> replaces the selected range and
  puts the caret behind the inserted content, \<open>slice\<close> keeps the range of characters
  with their formats (section 4.1 of the spec); the HTML of a value is its text; the
  registry has a prefix transform for an asterisk and an enter transform for three
  backquotes.  The line separator U+2028 is not a character of \<open>string\<close>, so
  \<open>insertLineSeparator\<close> and \<open>replaceNewlines\<close> return the value as it is.
\<close>
definition demoFragment :: "fragment \<Rightarrow> rvalue" where
  "demoFragment f =
     (case f of
        Text str \<Rightarrow> \<lparr>v_text = str, v_formats = replicate (length str) None, v_start = 0, v_end = 0\<rparr>
      | Value v \<Rightarrow> v)"

definition demoLib :: "string lib" where
  "demoLib =
     \<lparr>split_v = (\<lambda>v.
         (\<lparr>v_text = take (v_start v) (v_text v), v_formats = take (v_start v) (v_formats v),
           v_start = v_start v, v_end = v_start v\<rparr>,
          \<lparr>v_text = drop (v_end v) (v_text v), v_formats = drop (v_end v) (v_formats v),
           v_start = 0, v_end = 0\<rparr>)),
      insert_v = (\<lambda>v f.
         \<lparr>v_text = take (v_start v) (v_text v) @ v_text (demoFragment f) @ drop (v_end v) (v_text v),
          v_formats = take (v_start v) (v_formats v) @ v_formats (demoFragment f)
                        @ drop (v_end v) (v_formats v),
          v_start = v_start v + length (v_text (demoFragment f)),
          v_end = v_start v + length (v_text (demoFragment f))\<rparr>),
      insertLineSeparator = (\<lambda>v. v),
      isEmptyLine = (\<lambda>v. v_text v = []),
      create = (\<lambda>a. case a of
                   FromHTML str _ _ _ \<Rightarrow> demoFragment (Text str)
                 | FromText str \<Rightarrow> demoFragment (Text str)),
      replaceNewlines = (\<lambda>v. v),
      slice_v = (\<lambda>v b e.
         \<lparr>v_text = take (e - b) (drop b (v_text v)), v_formats = take (e - b) (drop b (v_formats v)),
          v_start = 0, v_end = 0\<rparr>),
      toHTMLString = (\<lambda>v tag. v_text v),
      pasteHandler = (\<lambda>h p m tag w. if m = INLINE then Inline p else Blocks [p]),
      pasteHandlerBlocks = (\<lambda>h tag w. [h]),
      filePasteHandler = concat,
      isURL = (\<lambda>str. take 8 str = ''https://''),
      isShortcode = (\<lambda>str. take 1 str = ''[''),
      removeEditorOnlyFormats = (\<lambda>v. v),
      getBlockTransforms_from =
        [\<lparr>ttype = ''prefix'', regExp = (\<lambda>str. False), prefix = ''*'',
          transform = (\<lambda>a. case a of ContentField str \<Rightarrow> ''list:'' @ str | Content str \<Rightarrow> ''list:'' @ str)\<rparr>,
         \<lparr>ttype = ''enter'', regExp = (\<lambda>str. str = ''```''), prefix = [],
          transform = (\<lambda>a. ''code'')\<rparr>]\<rparr>"

text \<open>A host with every callback, and one with none; neither is multiline.\<close>
definition demoProps :: "string props" where
  "demoProps =
     \<lparr>onReplace = True,
      onSplit = Some (\<lambda>h isOriginal. ''paragraph:'' @ h),
      onSplitMiddle = None,
      onSplitAtEnd = True, onMerge = True, onRemove = True,
      multiline = MUndefined, disableLineBreaks = False, pastePlainText = False,
      embedURLOnPaste = False, tagName = ''p'', preserveWhiteSpace = False\<rparr>"

definition bareProps :: "string props" where
  "bareProps =
     \<lparr>onReplace = False, onSplit = None, onSplitMiddle = None,
      onSplitAtEnd = False, onMerge = False, onRemove = False,
      multiline = MUndefined, disableLineBreaks = False, pastePlainText = False,
      embedURLOnPaste = False, tagName = ''p'', preserveWhiteSpace = False\<rparr>"

definition demoPayload :: payload where
  "demoPayload =
     \<lparr>html = ''x'', plainText = ''x'', isInternal = True, files = [],
      activeFormats = [''bold'']\<rparr>"

section \<open>addActiveFormats writes into its argument\<close>

lemma addActiveFormats_loop_length: "length (addActiveFormats_loop a r n s) = length s"
  by (induction n arbitrary: s) simp_all

text \<open>After \<open>n\<close> rounds the first \<open>n\<close> entries are rewritten and the rest is as before.\<close>

lemma addActiveFormats_loop_char:
  "r < length s \<Longrightarrow> n \<le> length (v_formats (s ! r)) \<Longrightarrow>
   addActiveFormats_loop a r n s =
     s[r := (s ! r)\<lparr>v_formats := map (\<lambda>e. Some (a @ orEmpty e)) (take n (v_formats (s ! r)))
                                   @ drop n (v_formats (s ! r))\<rparr>]"
proof (induction n arbitrary: s)
  case 0
  then show ?case by simp
next
  case (Suc n)
  let ?fs = "v_formats (s ! r)"
  let ?s' = "s[r := (s ! r)\<lparr>v_formats := ?fs[n := Some (a @ orEmpty (?fs ! n))]\<rparr>]"
  have n: "n < length ?fs" using Suc.prems by simp
  have r': "r < length ?s'" using Suc.prems by simp
  have fs': "v_formats (?s' ! r) = ?fs[n := Some (a @ orEmpty (?fs ! n))]"
    using Suc.prems by simp
  have "addActiveFormats_loop a r (Suc n) s = addActiveFormats_loop a r n ?s'" by simp
  also have "\<dots> = ?s'[r := (?s' ! r)\<lparr>v_formats :=
        map (\<lambda>e. Some (a @ orEmpty e)) (take n (v_formats (?s' ! r)))
          @ drop n (v_formats (?s' ! r))\<rparr>]"
    using Suc.IH[OF r'] n fs' by simp
  also have "\<dots> = s[r := (s ! r)\<lparr>v_formats :=
        map (\<lambda>e. Some (a @ orEmpty e)) (take n (v_formats (?s' ! r)))
          @ drop n (v_formats (?s' ! r))\<rparr>]"
    using Suc.prems by simp
  also have "map (\<lambda>e. Some (a @ orEmpty e)) (take n (v_formats (?s' ! r))) @ drop n (v_formats (?s' ! r))
      = map (\<lambda>e. Some (a @ orEmpty e)) (take (Suc n) ?fs) @ drop (Suc n) ?fs"
    unfolding fs' using n
    by (simp add: take_Suc_conv_app_nth drop_update_swap[symmetric] Cons_nth_drop_Suc[symmetric])
  finally show ?case .
qed

lemma addActiveFormats_char:
  "r < length s \<Longrightarrow> a \<noteq> [] \<Longrightarrow>
   addActiveFormats r a s =
     s[r := (s ! r)\<lparr>v_formats := map (\<lambda>e. Some (a @ orEmpty e)) (v_formats (s ! r))\<rparr>]"
  by (simp add: addActiveFormats_def addActiveFormats_loop_char)

lemma addActiveFormats_nil: "addActiveFormats r [] s = s"
  by (simp add: addActiveFormats_def)

lemma addActiveFormats_length: "length (addActiveFormats r a s) = length s"
  by (simp add: addActiveFormats_def addActiveFormats_loop_length)

lemma addActiveFormats_other:
  "r < length s \<Longrightarrow> r' \<noteq> r \<Longrightarrow> addActiveFormats r a s ! r' = s ! r'"
  by (cases "a = []") (simp_all add: addActiveFormats_nil addActiveFormats_char)

lemma addActiveFormats_at:
  "r < length s \<Longrightarrow> a \<noteq> [] \<Longrightarrow>
   addActiveFormats r a s ! r =
     (s ! r)\<lparr>v_formats := map (\<lambda>e. Some (a @ orEmpty e)) (v_formats (s ! r))\<rparr>"
  by (simp add: addActiveFormats_char)

lemma addActiveFormats_fresh:
  "take (length s) (addActiveFormats (length s) a (s @ [v])) = s"
  by (cases "a = []") (simp_all add: addActiveFormats_nil addActiveFormats_char)

lemma onPaste_store: "take (length s) (snd (onPaste P L r pl s)) = s"
  by (simp add: onPaste_def alloc_def Let_def addActiveFormats_fresh split: content.split)

text \<open>
  C9.  \<open>addActiveFormats( value, activeFormats )\<close> puts \<open>activeFormats\<close> in front of the
  formats that each character of the value already has: the active formats are the
  outer ones and the formats that were there stay behind them, a hole counting as no
  format.  Nothing is deduplicated: after two calls with the same active formats every
  character has them twice at the front.
\<close>

theorem addActiveFormats_prepends:
  assumes "r < length s" and "i < length (v_formats (s ! r))"
  shows "length (v_formats (addActiveFormats r a s ! r)) = length (v_formats (s ! r))
     \<and> orEmpty (v_formats (addActiveFormats r a s ! r) ! i) = a @ orEmpty (v_formats (s ! r) ! i)
     \<and> (a \<noteq> [] \<longrightarrow>
          v_formats (addActiveFormats r a s ! r) ! i = Some (a @ orEmpty (v_formats (s ! r) ! i)))
     \<and> orEmpty (v_formats (addActiveFormats r a (addActiveFormats r a s) ! r) ! i)
         = a @ a @ orEmpty (v_formats (s ! r) ! i)"
proof (cases "a = []")
  case True
  then show ?thesis by (simp add: addActiveFormats_nil)
next
  case False
  have len: "r < length (addActiveFormats r a s)"
    using assms(1) by (simp add: addActiveFormats_length)
  have one: "addActiveFormats r a s ! r =
      (s ! r)\<lparr>v_formats := map (\<lambda>e. Some (a @ orEmpty e)) (v_formats (s ! r))\<rparr>"
    using assms(1) False by (rule addActiveFormats_at)
  have two: "addActiveFormats r a (addActiveFormats r a s) ! r =
      (addActiveFormats r a s ! r)\<lparr>v_formats :=
         map (\<lambda>e. Some (a @ orEmpty e)) (v_formats (addActiveFormats r a s ! r))\<rparr>"
    using len False by (rule addActiveFormats_at)
  show ?thesis using assms(2) by (simp add: two one orEmpty_def)
qed

text \<open>A value of two characters, the second one emphasised, and the active format strong.\<close>

theorem addActiveFormats_prepends_witness:
  "orEmpty (v_formats (addActiveFormats 0 [''strong'']
       [\<lparr>v_text = ''ab'', v_formats = [None, Some [''em'']], v_start = 0, v_end = 0\<rparr>] ! 0) ! 1)
     = [''strong'', ''em'']
   \<and> orEmpty (v_formats (addActiveFormats 0 [''strong''] (addActiveFormats 0 [''strong'']
       [\<lparr>v_text = ''ab'', v_formats = [None, Some [''em'']], v_start = 0, v_end = 0\<rparr>]) ! 0) ! 1)
     = [''strong'', ''strong'', ''em'']"
  using addActiveFormats_prepends [of 0
      "[\<lparr>v_text = ''ab'', v_formats = [None, Some [''em'']], v_start = 0, v_end = 0\<rparr>]" 1
      "[''strong'']"]
  by (simp add: orEmpty_def)

text \<open>
  C2, as amended.  \<open>addActiveFormats\<close> does not return a new value: it overwrites the
  formats of the value it is given, and nothing else; the text and the selection of that
  value and every other value of the store stay as they were, and with no active format
  nothing is written at all.  \<open>onPaste\<close> calls it only on the value that \<open>create\<close>
  has just made, so every value that was in the store before the paste, the current
  value among them, is unchanged after it.
\<close>

theorem addActiveFormats_frame:
  assumes "r < length s"
  shows "length (addActiveFormats r a s) = length s
     \<and> v_text (addActiveFormats r a s ! r) = v_text (s ! r)
     \<and> v_start (addActiveFormats r a s ! r) = v_start (s ! r)
     \<and> v_end (addActiveFormats r a s ! r) = v_end (s ! r)
     \<and> (\<forall>r'. r' \<noteq> r \<longrightarrow> addActiveFormats r a s ! r' = s ! r')
     \<and> (a = [] \<longrightarrow> addActiveFormats r a s = s)
     \<and> take (length s) (snd (onPaste P L r pl s)) = s
     \<and> snd (onPaste P L r pl s) ! r = s ! r"
proof -
  have same: "v_text (addActiveFormats r a s ! r) = v_text (s ! r)
     \<and> v_start (addActiveFormats r a s ! r) = v_start (s ! r)
     \<and> v_end (addActiveFormats r a s ! r) = v_end (s ! r)"
    using assms by (cases "a = []") (simp_all add: addActiveFormats_nil addActiveFormats_at)
  have "take (length s) (snd (onPaste P L r pl s)) ! r = s ! r"
    by (simp only: onPaste_store)
  then have cur: "snd (onPaste P L r pl s) ! r = s ! r" using assms by simp
  show ?thesis
    using same cur assms
    by (simp add: addActiveFormats_length addActiveFormats_other addActiveFormats_nil onPaste_store)
qed

text \<open>An internal paste of one character with the active format bold: the pasted value
  is new in the store and carries the format, the current value is as before.\<close>

theorem addActiveFormats_frame_witness:
  "v_text (addActiveFormats 0 [''bold'']
       [\<lparr>v_text = ''a'', v_formats = [None], v_start = 1, v_end = 1\<rparr>] ! 0) = ''a''
   \<and> snd (onPaste demoProps demoLib 0 demoPayload
        [\<lparr>v_text = ''a'', v_formats = [None], v_start = 1, v_end = 1\<rparr>])
     = [\<lparr>v_text = ''a'', v_formats = [None], v_start = 1, v_end = 1\<rparr>,
        \<lparr>v_text = ''x'', v_formats = [Some [''bold'']], v_start = 0, v_end = 0\<rparr>]
   \<and> addActiveFormats 1 [''bold'']
       [\<lparr>v_text = ''a'', v_formats = [None], v_start = 1, v_end = 1\<rparr>,
        \<lparr>v_text = ''x'', v_formats = [None], v_start = 0, v_end = 0\<rparr>] ! 0
     = \<lparr>v_text = ''a'', v_formats = [None], v_start = 1, v_end = 1\<rparr>
   \<and> addActiveFormats 0 [] [\<lparr>v_text = ''a'', v_formats = [None], v_start = 1, v_end = 1\<rparr>]
     = [\<lparr>v_text = ''a'', v_formats = [None], v_start = 1, v_end = 1\<rparr>]"
  using addActiveFormats_frame [of 0
      "[\<lparr>v_text = ''a'', v_formats = [None], v_start = 1, v_end = 1\<rparr>]" "[''bold'']"
      demoProps demoLib demoPayload]
    addActiveFormats_frame [of 1
      "[\<lparr>v_text = ''a'', v_formats = [None], v_start = 1, v_end = 1\<rparr>,
        \<lparr>v_text = ''x'', v_formats = [None], v_start = 0, v_end = 0\<rparr>]" "[''bold'']"]
    addActiveFormats_frame [of 0
      "[\<lparr>v_text = ''a'', v_formats = [None], v_start = 1, v_end = 1\<rparr>]" "[]"]
  by (simp add: onPaste_def alloc_def addActiveFormats_def demoProps_def demoLib_def
      demoPayload_def demoFragment_def getMultilineTag_def orEmpty_def Let_def)

text \<open>C2 as the spec has it fails: the value handed to \<open>addActiveFormats\<close> is not the
  same afterwards.\<close>

theorem addActiveFormats_mutates_argument:
  "addActiveFormats 0 [''bold''] [\<lparr>v_text = ''a'', v_formats = [None], v_start = 1, v_end = 1\<rparr>] ! 0
     = \<lparr>v_text = ''a'', v_formats = [Some [''bold'']], v_start = 1, v_end = 1\<rparr>
   \<and> addActiveFormats 0 [''bold''] [\<lparr>v_text = ''a'', v_formats = [None], v_start = 1, v_end = 1\<rparr>] ! 0
     \<noteq> \<lparr>v_text = ''a'', v_formats = [None], v_start = 1, v_end = 1\<rparr>"
  by (simp add: addActiveFormats_def orEmpty_def)

section \<open>splitValue: which units are produced\<close>

text \<open>
  C1, as amended.  With \<open>onReplace\<close> and \<open>onSplit\<close>, \<open>splitValue\<close> calls
  \<open>onReplace\<close> once with the before unit, the pasted blocks or the block of
  \<open>onSplitMiddle\<close>, and the after unit, in this order.  The before unit is left out
  exactly when it is empty and there are pasted blocks; without pasted blocks it is
  always there, empty or not.  The after unit is left out exactly when it is empty and
  there are pasted blocks or an \<open>onSplitMiddle\<close>.
\<close>

theorem splitValue_units:
  assumes "onReplace P" and "onSplit P = Some f" and "split_v L record = (before, after)"
  shows "splitValue P L record pastedBlocks =
     [OnReplace
        ((if pastedBlocks \<noteq> [] \<and> isEmpty before then []
          else [f (toHTMLString L before (getMultilineTag (multiline P)))
                  (\<not> (isEmpty before \<and> \<not> isEmpty after))])
         @ (if pastedBlocks \<noteq> [] then pastedBlocks
            else (case onSplitMiddle P of Some m \<Rightarrow> [m ()] | None \<Rightarrow> []))
         @ (if isEmpty after \<and> (pastedBlocks \<noteq> [] \<or> onSplitMiddle P \<noteq> None) then []
            else [f (toHTMLString L after (getMultilineTag (multiline P)))
                    (isEmpty before \<and> \<not> isEmpty after)]))
        (Some (if pastedBlocks \<noteq> []
               then (if isEmpty before then int (length pastedBlocks) - 1
                     else int (length pastedBlocks),
                     -1)
               else (1, 0)))]"
  using assms by (simp add: splitValue_def Let_def split: option.split)

text \<open>A split in the middle of two characters, and a paste of one block at their start.\<close>

theorem splitValue_units_witness:
  "splitValue demoProps demoLib
      \<lparr>v_text = ''ab'', v_formats = [None, None], v_start = 1, v_end = 1\<rparr> []
     = [OnReplace [''paragraph:a'', ''paragraph:b''] (Some (1, 0))]
   \<and> splitValue demoProps demoLib
      \<lparr>v_text = ''ab'', v_formats = [None, None], v_start = 0, v_end = 0\<rparr> [''image'']
     = [OnReplace [''image'', ''paragraph:ab''] (Some (0, -1))]"
  using splitValue_units [of demoProps "\<lambda>h isOriginal. ''paragraph:'' @ h" demoLib
      "\<lparr>v_text = ''ab'', v_formats = [None, None], v_start = 1, v_end = 1\<rparr>"
      "\<lparr>v_text = ''a'', v_formats = [None], v_start = 1, v_end = 1\<rparr>"
      "\<lparr>v_text = ''b'', v_formats = [None], v_start = 0, v_end = 0\<rparr>" "[]"]
    splitValue_units [of demoProps "\<lambda>h isOriginal. ''paragraph:'' @ h" demoLib
      "\<lparr>v_text = ''ab'', v_formats = [None, None], v_start = 0, v_end = 0\<rparr>"
      "\<lparr>v_text = [], v_formats = [], v_start = 0, v_end = 0\<rparr>"
      "\<lparr>v_text = ''ab'', v_formats = [None, None], v_start = 0, v_end = 0\<rparr>" "[''image'']"]
  by (simp add: demoProps_def demoLib_def isEmpty_def getMultilineTag_def)

text \<open>C1 as the spec has it fails: with the caret at the start and nothing pasted the
  before unit is empty, and it is produced all the same.\<close>

theorem splitValue_keeps_empty_before:
  "isEmpty (fst (split_v demoLib
      \<lparr>v_text = ''ab'', v_formats = [None, None], v_start = 0, v_end = 0\<rparr>))
   \<and> splitValue demoProps demoLib
      \<lparr>v_text = ''ab'', v_formats = [None, None], v_start = 0, v_end = 0\<rparr> []
     = [OnReplace [''paragraph:'', ''paragraph:ab''] (Some (1, 0))]"
  by (simp add: splitValue_def demoProps_def demoLib_def isEmpty_def getMultilineTag_def)

text \<open>
  C10.  Without \<open>onReplace\<close> or without \<open>onSplit\<close>, \<open>splitValue\<close> returns at once.
  So a paste whose content is a list of blocks, and which does not replace (the value
  is not empty, or there is no \<open>onReplace\<close>), calls nothing on the owner and changes no
  value: the blocks are dropped.  In the file branch the only thing done is the console
  log.
\<close>

theorem paste_blocks_dropped:
  assumes "\<not> onReplace P \<or> onSplit P = None"
  shows "splitValue P L record pastedBlocks = []
     \<and> (\<not> isInternal pl \<and> \<not> pastePlainText P \<and> \<not> (length (files pl) \<noteq> 0 \<and> html pl = [])
          \<and> pasteHandler L (html pl) (plainText pl) (pasteMode P L (s ! r) pl)
               (tagName P) (preserveWhiteSpace P) = Blocks content
          \<and> \<not> (onReplace P \<and> isEmpty (s ! r)) \<longrightarrow>
        onPaste P L r pl s = ([], s))
     \<and> (\<not> isInternal pl \<and> \<not> pastePlainText P \<and> length (files pl) \<noteq> 0 \<and> html pl = []
          \<and> \<not> (onReplace P \<and> isEmpty (s ! r)) \<longrightarrow>
        onPaste P L r pl s = ([ConsoleLog (files pl)], s))"
proof -
  have none: "splitValue P L v bs = []" for v bs
    using assms by (auto simp: splitValue_def split: option.split)
  show ?thesis
    by (auto simp: onPaste_def Let_def none)
qed

text \<open>A host with no callback at all that embeds URLs on paste: the URL is parsed into a
  block, and the block goes nowhere.\<close>

theorem paste_blocks_dropped_witness:
  "onPaste (bareProps\<lparr>embedURLOnPaste := True\<rparr>) demoLib 0
      \<lparr>html = [], plainText = ''https://example.com'', isInternal = False, files = [],
        activeFormats = []\<rparr>
      [\<lparr>v_text = [], v_formats = [], v_start = 0, v_end = 0\<rparr>]
     = ([], [\<lparr>v_text = [], v_formats = [], v_start = 0, v_end = 0\<rparr>])
   \<and> pasteHandler demoLib [] ''https://example.com'' BLOCKS ''p'' False
     = Blocks [''https://example.com'']
   \<and> onPaste (demoProps\<lparr>onSplit := None\<rparr>) demoLib 0
      \<lparr>html = [], plainText = [], isInternal = False, files = [''cat.png''],
        activeFormats = []\<rparr>
      [\<lparr>v_text = ''a'', v_formats = [None], v_start = 1, v_end = 1\<rparr>]
     = ([ConsoleLog [''cat.png'']], [\<lparr>v_text = ''a'', v_formats = [None], v_start = 1, v_end = 1\<rparr>])"
  using paste_blocks_dropped [of "bareProps\<lparr>embedURLOnPaste := True\<rparr>" demoLib _ _
      "\<lparr>html = [], plainText = ''https://example.com'', isInternal = False, files = [],
        activeFormats = []\<rparr>" "[\<lparr>v_text = [], v_formats = [], v_start = 0, v_end = 0\<rparr>]" 0
      "[''https://example.com'']"]
    paste_blocks_dropped [of "demoProps\<lparr>onSplit := None\<rparr>" demoLib _ _
      "\<lparr>html = [], plainText = [], isInternal = False, files = [''cat.png''],
        activeFormats = []\<rparr>" "[\<lparr>v_text = ''a'', v_formats = [None], v_start = 1, v_end = 1\<rparr>]" 0]
  by (simp add: bareProps_def demoProps_def demoLib_def pasteMode_def isEmpty_def trim_def
      isWhiteSpace_def)

section \<open>Backspace and Delete\<close>

lemma splitValue_signals:
  "x \<in> set (splitValue P L record pasted) \<Longrightarrow> \<exists>bs sel. x = OnReplace bs sel"
  by (auto simp: splitValue_def Let_def split: option.splits if_splits prod.splits)

lemma enterTransform_signals:
  "x \<in> set (enterTransform P L v) \<Longrightarrow> (\<exists>bs sel. x = OnReplace bs sel) \<or> x = MarkAutomaticChange"
  by (auto simp: enterTransform_def Let_def split: option.splits if_splits)

lemma enter_no_remove:
  "keyCode ev = ENTER \<Longrightarrow> OnRemove d \<notin> set (fst (onKeyDown P L haf v ev))"
  by (auto simp: onKeyDown_def Let_def dest: splitValue_signals enterTransform_signals
      split: if_splits)

text \<open>
  C3.  The key handler calls \<open>onRemove\<close> exactly when the event is not yet prevented,
  the key is Backspace, the selection is collapsed at offset 0 with no active formats,
  there is an \<open>onRemove\<close> and the value is empty; the call is backward, and it comes
  after the backward \<open>onMerge\<close> when there is an \<open>onMerge\<close>.  Delete never calls
  \<open>onRemove\<close>.
\<close>

theorem remove_only_on_backspace:
  "(OnRemove d \<in> set (fst (onKeyDown P L hasActiveFormats value ev)) \<longleftrightarrow>
      \<not> defaultPrevented ev \<and> keyCode ev = BACKSPACE \<and> isCollapsed value \<and> \<not> hasActiveFormats
      \<and> v_start value = 0 \<and> onRemove P \<and> isEmpty value \<and> d = False)
   \<and> (\<not> defaultPrevented ev \<and> keyCode ev = BACKSPACE \<and> isCollapsed value \<and> \<not> hasActiveFormats
        \<and> v_start value = 0 \<and> onRemove P \<and> isEmpty value \<longrightarrow>
      onKeyDown P L hasActiveFormats value ev =
        ((if onMerge P then [OnMerge False] else []) @ [OnRemove False], preventDefault ev))
   \<and> (keyCode ev = DELETE \<longrightarrow> OnRemove d \<notin> set (fst (onKeyDown P L hasActiveFormats value ev)))"
proof (cases "keyCode ev = ENTER")
  case True
  then show ?thesis
    using enter_no_remove[OF True, of d P L hasActiveFormats "value"]
    by (simp add: ENTER_def BACKSPACE_def DELETE_def)
next
  case False
  then show ?thesis
    by (auto simp: onKeyDown_def Let_def BACKSPACE_def DELETE_def ENTER_def)
qed

text \<open>Backspace and Delete on the empty value, with every callback there.\<close>

theorem remove_only_on_backspace_witness:
  "onKeyDown demoProps demoLib False \<lparr>v_text = [], v_formats = [], v_start = 0, v_end = 0\<rparr>
      \<lparr>keyCode = 8, shiftKey = False, defaultPrevented = False\<rparr>
     = ([OnMerge False, OnRemove False], \<lparr>keyCode = 8, shiftKey = False, defaultPrevented = True\<rparr>)
   \<and> OnRemove False \<notin> set (fst (onKeyDown demoProps demoLib False
        \<lparr>v_text = [], v_formats = [], v_start = 0, v_end = 0\<rparr>
        \<lparr>keyCode = 46, shiftKey = False, defaultPrevented = False\<rparr>))"
  using remove_only_on_backspace [of False demoProps demoLib False
      "\<lparr>v_text = [], v_formats = [], v_start = 0, v_end = 0\<rparr>"
      "\<lparr>keyCode = 8, shiftKey = False, defaultPrevented = False\<rparr>"]
    remove_only_on_backspace [of False demoProps demoLib False
      "\<lparr>v_text = [], v_formats = [], v_start = 0, v_end = 0\<rparr>"
      "\<lparr>keyCode = 46, shiftKey = False, defaultPrevented = False\<rparr>"]
  by (simp add: demoProps_def BACKSPACE_def DELETE_def isCollapsed_def isEmpty_def
      preventDefault_def)

text \<open>
  C4.  For a Backspace or Delete event that no earlier handler has prevented: unless the
  selection is collapsed, no format is active and the caret is at offset 0 (Backspace)
  or at the end of the text (Delete), the handler does nothing and leaves the event as
  it is.  When the three hold it prevents the default, and with an \<open>onMerge\<close> it calls
  it once, backward for Backspace and forward for Delete; the only other call it can
  make is the \<open>onRemove\<close> of Backspace.
\<close>

theorem delete_keys_merge:
  assumes "\<not> defaultPrevented ev" and "keyCode ev = BACKSPACE \<or> keyCode ev = DELETE"
  shows "(\<not> (isCollapsed value \<and> \<not> hasActiveFormats
            \<and> (if keyCode ev = BACKSPACE then v_start value = 0
                else v_end value = length (v_text value))) \<longrightarrow>
          onKeyDown P L hasActiveFormats value ev = ([], ev))
     \<and> (isCollapsed value \<and> \<not> hasActiveFormats
          \<and> (if keyCode ev = BACKSPACE then v_start value = 0
              else v_end value = length (v_text value)) \<longrightarrow>
          onKeyDown P L hasActiveFormats value ev =
            ((if onMerge P then [OnMerge (keyCode ev = DELETE)] else [])
               @ (if onRemove P \<and> isEmpty value \<and> keyCode ev = BACKSPACE
                  then [OnRemove False] else []),
             preventDefault ev))"
  using assms by (auto simp: onKeyDown_def Let_def BACKSPACE_def DELETE_def ENTER_def)

text \<open>Delete at the end of two characters merges forward; Backspace in their middle is
  left to the platform.\<close>

theorem delete_keys_merge_witness:
  "onKeyDown demoProps demoLib False
      \<lparr>v_text = ''ab'', v_formats = [None, None], v_start = 2, v_end = 2\<rparr>
      \<lparr>keyCode = 46, shiftKey = False, defaultPrevented = False\<rparr>
     = ([OnMerge True], \<lparr>keyCode = 46, shiftKey = False, defaultPrevented = True\<rparr>)
   \<and> onKeyDown demoProps demoLib False
      \<lparr>v_text = ''ab'', v_formats = [None, None], v_start = 1, v_end = 1\<rparr>
      \<lparr>keyCode = 8, shiftKey = False, defaultPrevented = False\<rparr>
     = ([], \<lparr>keyCode = 8, shiftKey = False, defaultPrevented = False\<rparr>)"
  using delete_keys_merge [of "\<lparr>keyCode = 46, shiftKey = False, defaultPrevented = False\<rparr>"
      "\<lparr>v_text = ''ab'', v_formats = [None, None], v_start = 2, v_end = 2\<rparr>" False
      demoProps demoLib]
    delete_keys_merge [of "\<lparr>keyCode = 8, shiftKey = False, defaultPrevented = False\<rparr>"
      "\<lparr>v_text = ''ab'', v_formats = [None, None], v_start = 1, v_end = 1\<rparr>" False
      demoProps demoLib]
  by (simp add: demoProps_def BACKSPACE_def DELETE_def isCollapsed_def isEmpty_def
      preventDefault_def)

section \<open>Enter\<close>

text \<open>The registry is read by the check of the enter transforms only.\<close>

lemma splitValue_registry [simp]:
  "splitValue P (L\<lparr>getBlockTransforms_from := ts\<rparr>) record pasted = splitValue P L record pasted"
  by (simp add: splitValue_def Let_def split: option.split prod.split)

lemma enterTransform_empty_registry [simp]:
  "enterTransform P (L\<lparr>getBlockTransforms_from := []\<rparr>) v = []"
  by (simp add: enterTransform_def findTransform_def)

lemma onKeyDown_enter:
  "\<not> defaultPrevented ev \<Longrightarrow> keyCode ev = ENTER \<Longrightarrow>
   fst (onKeyDown P L haf v ev) =
     enterTransform P L (removeEditorOnlyFormats L v)
       @ fst (onKeyDown P (L\<lparr>getBlockTransforms_from := []\<rparr>) haf v ev)"
  by (simp add: onKeyDown_def Let_def split del: if_split cong: if_cong)

text \<open>
  C5.  After an Enter event the default is prevented in every case.  When the event
  was not prevented before, there is an \<open>onReplace\<close> and an enter transform matches the
  text of the cleaned value, the handler first calls \<open>onReplace\<close> with the one block of
  the first matching transform and marks the change as automatic, and then goes on
  exactly as it does with no transform registered: the split, the line separator or the
  newline of the branches below still happens.
\<close>

theorem enter_transform_first:
  assumes "keyCode ev = ENTER"
  shows "defaultPrevented (snd (onKeyDown P L hasActiveFormats value ev))
     \<and> (\<not> defaultPrevented ev \<and> onReplace P
          \<and> findTransform (filter (\<lambda>t. ttype t = ''enter'') (getBlockTransforms_from L))
               (\<lambda>item. regExp item (v_text (removeEditorOnlyFormats L value))) = Some t \<longrightarrow>
          fst (onKeyDown P L hasActiveFormats value ev) =
            OnReplace [transform t (ContentField (v_text (removeEditorOnlyFormats L value)))] None
              # MarkAutomaticChange
              # fst (onKeyDown P (L\<lparr>getBlockTransforms_from := []\<rparr>) hasActiveFormats value ev))"
proof -
  have "defaultPrevented (snd (onKeyDown P L hasActiveFormats value ev))"
    using assms by (simp add: onKeyDown_def Let_def preventDefault_def)
  moreover have "fst (onKeyDown P L hasActiveFormats value ev) =
            OnReplace [transform t (ContentField (v_text (removeEditorOnlyFormats L value)))] None
              # MarkAutomaticChange
              # fst (onKeyDown P (L\<lparr>getBlockTransforms_from := []\<rparr>) hasActiveFormats value ev)"
    if "\<not> defaultPrevented ev" and "onReplace P"
      and "findTransform (filter (\<lambda>t. ttype t = ''enter'') (getBlockTransforms_from L))
               (\<lambda>item. regExp item (v_text (removeEditorOnlyFormats L value))) = Some t"
    using onKeyDown_enter[OF that(1) assms, of P L hasActiveFormats "value"] that(2,3)
    by (simp add: enterTransform_def)
  ultimately show ?thesis by blast
qed

text \<open>Three backquotes and Enter: the code transform fires, and then the value is split;
  with Shift a newline is inserted after it, and in a multiline host a line separator.\<close>

theorem enter_transform_first_witness:
  "onKeyDown demoProps demoLib False
      \<lparr>v_text = ''```'', v_formats = [None, None, None], v_start = 3, v_end = 3\<rparr>
      \<lparr>keyCode = 13, shiftKey = False, defaultPrevented = False\<rparr>
     = ([OnReplace [''code''] None, MarkAutomaticChange,
         OnReplace [''paragraph:```'', ''paragraph:''] (Some (1, 0))],
        \<lparr>keyCode = 13, shiftKey = False, defaultPrevented = True\<rparr>)
   \<and> fst (onKeyDown demoProps demoLib False
        \<lparr>v_text = ''```'', v_formats = [None, None, None], v_start = 3, v_end = 3\<rparr>
        \<lparr>keyCode = 13, shiftKey = True, defaultPrevented = False\<rparr>)
     = [OnReplace [''code''] None, MarkAutomaticChange,
        OnChange \<lparr>v_text = [CHR ''`'', CHR ''`'', CHR ''`'', CHR 0x0A],
                  v_formats = [None, None, None, None], v_start = 4, v_end = 4\<rparr>]
   \<and> fst (onKeyDown (demoProps\<lparr>multiline := MBool True\<rparr>) demoLib False
        \<lparr>v_text = ''```'', v_formats = [None, None, None], v_start = 3, v_end = 3\<rparr>
        \<lparr>keyCode = 13, shiftKey = False, defaultPrevented = False\<rparr>)
     = [OnReplace [''code''] None, MarkAutomaticChange,
        OnChange \<lparr>v_text = ''```'', v_formats = [None, None, None], v_start = 3, v_end = 3\<rparr>]"
  using enter_transform_first [of "\<lparr>keyCode = 13, shiftKey = False, defaultPrevented = False\<rparr>"
      demoProps demoLib False
      "\<lparr>v_text = ''```'', v_formats = [None, None, None], v_start = 3, v_end = 3\<rparr>"
      "\<lparr>ttype = ''enter'', regExp = (\<lambda>str. str = ''```''), prefix = [], transform = (\<lambda>a. ''code'')\<rparr>"]
  by (simp add: onKeyDown_def enterTransform_def findTransform_def splitValue_def demoProps_def
      demoLib_def demoFragment_def ENTER_def isEmpty_def getMultilineTag_def truthy_def
      preventDefault_def Let_def)

text \<open>
  C7.  For an Enter event that was not prevented before, in a host that is not multiline,
  with \<open>canSplit\<close> for "there are \<open>onReplace\<close> and \<open>onSplit\<close>" and \<open>canSplitAtEnd\<close> for
  "there is an \<open>onSplitAtEnd\<close>, the selection is collapsed and the caret is at the end of
  the text", the cases are taken in this order, after the check of the enter transforms:
  with Shift, or with neither \<open>canSplit\<close> nor \<open>canSplitAtEnd\<close>, a newline is inserted
  unless line breaks are disabled, and then nothing is done; else without \<open>canSplit\<close>
  \<open>onSplitAtEnd\<close> is called; else \<open>splitValue\<close> is called, and it replaces the block
  and selects the second block at its start.
\<close>

theorem enter_not_multiline:
  assumes "\<not> defaultPrevented ev" and "keyCode ev = ENTER" and "\<not> truthy (multiline P)"
    and "value' = removeEditorOnlyFormats L value"
    and "canSplit = (onReplace P \<and> onSplit P \<noteq> None)"
    and "canSplitAtEnd =
           (onSplitAtEnd P \<and> isCollapsed value' \<and> v_end value' = length (v_text value'))"
  shows "((shiftKey ev \<or> (\<not> canSplit \<and> \<not> canSplitAtEnd)) \<and> \<not> disableLineBreaks P \<longrightarrow>
            fst (onKeyDown P L hasActiveFormats value ev) =
              enterTransform P L value' @ [OnChange (insert_v L value' (Text [CHR 0x0A]))])
     \<and> ((shiftKey ev \<or> (\<not> canSplit \<and> \<not> canSplitAtEnd)) \<and> disableLineBreaks P \<longrightarrow>
            fst (onKeyDown P L hasActiveFormats value ev) = enterTransform P L value')
     \<and> (\<not> shiftKey ev \<and> \<not> canSplit \<and> canSplitAtEnd \<longrightarrow>
            fst (onKeyDown P L hasActiveFormats value ev) = enterTransform P L value' @ [OnSplitAtEnd])
     \<and> (\<not> shiftKey ev \<and> canSplit \<longrightarrow>
            fst (onKeyDown P L hasActiveFormats value ev) =
              enterTransform P L value' @ splitValue P L value' []
            \<and> (\<exists>blocks. splitValue P L value' [] = [OnReplace blocks (Some (1, 0))]))"
proof -
  have replaced: "\<exists>blocks. splitValue P L value' [] = [OnReplace blocks (Some (1, 0))]"
    if "canSplit"
    using that assms(5) by (auto simp: splitValue_def Let_def split: prod.splits)
  show ?thesis
    using assms replaced by (simp add: onKeyDown_def Let_def isCollapsed_def)
qed

text \<open>Enter at the end of two characters with no \<open>onSplit\<close>, and Enter between them with
  every callback.\<close>

theorem enter_not_multiline_witness:
  "fst (onKeyDown (demoProps\<lparr>onSplit := None\<rparr>) demoLib False
      \<lparr>v_text = ''ab'', v_formats = [None, None], v_start = 2, v_end = 2\<rparr>
      \<lparr>keyCode = 13, shiftKey = False, defaultPrevented = False\<rparr>) = [OnSplitAtEnd]
   \<and> fst (onKeyDown demoProps demoLib False
      \<lparr>v_text = ''ab'', v_formats = [None, None], v_start = 1, v_end = 1\<rparr>
      \<lparr>keyCode = 13, shiftKey = False, defaultPrevented = False\<rparr>)
     = [OnReplace [''paragraph:a'', ''paragraph:b''] (Some (1, 0))]
   \<and> fst (onKeyDown demoProps demoLib False
      \<lparr>v_text = ''ab'', v_formats = [None, None], v_start = 1, v_end = 1\<rparr>
      \<lparr>keyCode = 13, shiftKey = True, defaultPrevented = False\<rparr>)
     = [OnChange \<lparr>v_text = [CHR ''a'', CHR 0x0A, CHR ''b''], v_formats = [None, None, None],
                  v_start = 2, v_end = 2\<rparr>]
   \<and> fst (onKeyDown (demoProps\<lparr>disableLineBreaks := True\<rparr>) demoLib False
      \<lparr>v_text = ''ab'', v_formats = [None, None], v_start = 1, v_end = 1\<rparr>
      \<lparr>keyCode = 13, shiftKey = True, defaultPrevented = False\<rparr>) = []"
  using enter_not_multiline [of "\<lparr>keyCode = 13, shiftKey = False, defaultPrevented = False\<rparr>"
      "demoProps\<lparr>onSplit := None\<rparr>"
      "\<lparr>v_text = ''ab'', v_formats = [None, None], v_start = 2, v_end = 2\<rparr>" demoLib
      "\<lparr>v_text = ''ab'', v_formats = [None, None], v_start = 2, v_end = 2\<rparr>" False True False]
    enter_not_multiline [of "\<lparr>keyCode = 13, shiftKey = False, defaultPrevented = False\<rparr>"
      demoProps
      "\<lparr>v_text = ''ab'', v_formats = [None, None], v_start = 1, v_end = 1\<rparr>" demoLib
      "\<lparr>v_text = ''ab'', v_formats = [None, None], v_start = 1, v_end = 1\<rparr>" True False False]
    enter_not_multiline [of "\<lparr>keyCode = 13, shiftKey = True, defaultPrevented = False\<rparr>"
      demoProps
      "\<lparr>v_text = ''ab'', v_formats = [None, None], v_start = 1, v_end = 1\<rparr>" demoLib
      "\<lparr>v_text = ''ab'', v_formats = [None, None], v_start = 1, v_end = 1\<rparr>" True False False]
    enter_not_multiline [of "\<lparr>keyCode = 13, shiftKey = True, defaultPrevented = False\<rparr>"
      "demoProps\<lparr>disableLineBreaks := True\<rparr>"
      "\<lparr>v_text = ''ab'', v_formats = [None, None], v_start = 1, v_end = 1\<rparr>" demoLib
      "\<lparr>v_text = ''ab'', v_formats = [None, None], v_start = 1, v_end = 1\<rparr>" True False False]
  by (simp add: onKeyDown_def enterTransform_def findTransform_def splitValue_def demoProps_def
      demoLib_def demoFragment_def ENTER_def isEmpty_def isCollapsed_def getMultilineTag_def
      truthy_def Let_def)

section \<open>The parse mode of a paste\<close>

text \<open>
  C6, as amended.  The mode of a general paste is 'BLOCKS' exactly when the value is
  empty and either there are \<open>onReplace\<close> and \<open>onSplit\<close> and the plain text looks like a
  shortcode, or URLs are embedded on paste and the trimmed plain text is a URL.
  Otherwise it is 'AUTO' with both \<open>onReplace\<close> and \<open>onSplit\<close> and 'INLINE' without.
\<close>

theorem pasteMode_blocks:
  "(pasteMode P L value pl = BLOCKS \<longleftrightarrow>
      (onReplace P \<and> onSplit P \<noteq> None \<and> isEmpty value \<and> isShortcode L (plainText pl))
      \<or> (embedURLOnPaste P \<and> isEmpty value \<and> isURL L (trim (plainText pl))))
   \<and> (pasteMode P L value pl \<noteq> BLOCKS \<longrightarrow>
        pasteMode P L value pl = (if onReplace P \<and> onSplit P \<noteq> None then AUTO else INLINE))"
  by (auto simp: pasteMode_def Let_def)

text \<open>A URL into the empty value of a host that embeds URLs, a shortcode into the empty
  value, and the shortcode into a value that has text.\<close>

theorem pasteMode_blocks_witness:
  "pasteMode (demoProps\<lparr>embedURLOnPaste := True\<rparr>) demoLib
      \<lparr>v_text = [], v_formats = [], v_start = 0, v_end = 0\<rparr>
      (demoPayload\<lparr>plainText := ''https://example.com''\<rparr>) = BLOCKS
   \<and> pasteMode demoProps demoLib \<lparr>v_text = [], v_formats = [], v_start = 0, v_end = 0\<rparr>
      (demoPayload\<lparr>plainText := ''[gallery]''\<rparr>) = BLOCKS
   \<and> pasteMode demoProps demoLib \<lparr>v_text = ''a'', v_formats = [None], v_start = 0, v_end = 0\<rparr>
      (demoPayload\<lparr>plainText := ''[gallery]''\<rparr>) = AUTO"
  using pasteMode_blocks [of "demoProps\<lparr>embedURLOnPaste := True\<rparr>" demoLib
      "\<lparr>v_text = [], v_formats = [], v_start = 0, v_end = 0\<rparr>"
      "demoPayload\<lparr>plainText := ''https://example.com''\<rparr>"]
    pasteMode_blocks [of demoProps demoLib
      "\<lparr>v_text = [], v_formats = [], v_start = 0, v_end = 0\<rparr>"
      "demoPayload\<lparr>plainText := ''[gallery]''\<rparr>"]
    pasteMode_blocks [of demoProps demoLib
      "\<lparr>v_text = ''a'', v_formats = [None], v_start = 0, v_end = 0\<rparr>"
      "demoPayload\<lparr>plainText := ''[gallery]''\<rparr>"]
  by (simp add: demoProps_def demoLib_def demoPayload_def isEmpty_def trim_def isWhiteSpace_def)

text \<open>C6 as the spec has it fails: the value is empty and the plain text looks like a
  shortcode, but without \<open>onReplace\<close> and \<open>onSplit\<close> the mode stays 'INLINE'.\<close>

theorem shortcode_without_split_stays_inline:
  "isEmpty \<lparr>v_text = [], v_formats = [], v_start = 0, v_end = 0\<rparr>
   \<and> isShortcode demoLib (plainText (demoPayload\<lparr>plainText := ''[gallery]''\<rparr>))
   \<and> pasteMode bareProps demoLib \<lparr>v_text = [], v_formats = [], v_start = 0, v_end = 0\<rparr>
        (demoPayload\<lparr>plainText := ''[gallery]''\<rparr>) = INLINE"
  by (simp add: pasteMode_def bareProps_def demoLib_def demoPayload_def isEmpty_def)

section \<open>The input rule\<close>

lemma text_slice_before:
  "text_slice t (int n - 1) (int n) = '' '' \<longleftrightarrow> 0 < n \<and> n \<le> length t \<and> t ! (n - 1) = CHR '' ''"
proof (cases "0 < n \<and> n \<le> length t")
  case True
  then have "text_slice t (int n - 1) (int n) = take 1 (drop (n - 1) t)"
    by (simp add: text_slice_def Let_def min_def nat_diff_distrib')
  also have "\<dots> = [t ! (n - 1)]"
    using True Cons_nth_drop_Suc[of "n - 1" t] by (cases "drop (n - 1) t") auto
  finally show ?thesis using True by simp
next
  case False
  then have "text_slice t (int n - 1) (int n) = []"
    by (auto simp: text_slice_def Let_def min_def max_def)
  then show ?thesis using False by auto
qed

lemma text_slice_prefix: "text_slice t 0 (int n) = take n t"
  by (simp add: text_slice_def Let_def min_def)

lemma find_filter: "find p (filter q xs) = find (\<lambda>x. q x \<and> p x) xs"
  by (induction xs) simp_all

text \<open>
  C8.  The input rule does something only when there is an \<open>onReplace\<close> and the character
  right before the caret is a space, the character of code 32 and no other white space.
  It then takes the first transform of the registry that is a prefix transform and whose
  prefix is the trimmed text before the caret; with one, it calls \<open>onReplace\<close> with the
  single block that the transform makes of the formatted slice from the caret to the end
  of the text, and marks the change as automatic; with none it does nothing.
\<close>

theorem inputRule_prefix:
  "inputRule P L value valueToFormat =
     (if onReplace P \<and> 0 < v_start value \<and> v_start value \<le> length (v_text value)
         \<and> v_text value ! (v_start value - 1) = CHR '' ''
      then (case find (\<lambda>t. ttype t = ''prefix''
                        \<and> trim (take (v_start value) (v_text value)) = prefix t)
                   (getBlockTransforms_from L) of
              None \<Rightarrow> []
            | Some t \<Rightarrow>
                [OnReplace [transform t (Content (valueToFormat
                    (slice_v L value (v_start value) (length (v_text value)))))] None,
                 MarkAutomaticChange])
      else [])"
  by (simp add: inputRule_def Let_def text_slice_before text_slice_prefix findTransform_def
      find_filter split: option.split)

text \<open>An asterisk and a space make a list; an asterisk and a tab, or two asterisks and a
  space, make nothing.\<close>

theorem inputRule_prefix_witness:
  "inputRule demoProps demoLib
      \<lparr>v_text = ''* '', v_formats = [None, None], v_start = 2, v_end = 2\<rparr> v_text
     = [OnReplace [''list:''] None, MarkAutomaticChange]
   \<and> inputRule demoProps demoLib
      \<lparr>v_text = [CHR ''*'', CHR 0x09], v_formats = [None, None], v_start = 2, v_end = 2\<rparr> v_text
     = []
   \<and> inputRule demoProps demoLib
      \<lparr>v_text = ''** '', v_formats = [None, None, None], v_start = 3, v_end = 3\<rparr> v_text
     = []"
  using inputRule_prefix [of demoProps demoLib
      "\<lparr>v_text = ''* '', v_formats = [None, None], v_start = 2, v_end = 2\<rparr>" v_text]
    inputRule_prefix [of demoProps demoLib
      "\<lparr>v_text = [CHR ''*'', CHR 0x09], v_formats = [None, None], v_start = 2, v_end = 2\<rparr>" v_text]
    inputRule_prefix [of demoProps demoLib
      "\<lparr>v_text = ''** '', v_formats = [None, None, None], v_start = 3, v_end = 3\<rparr>" v_text]
  by (simp add: demoProps_def demoLib_def trim_def isWhiteSpace_def)

end
